theory Spec2Isabelle
  imports Complex_Main "HOL-Library.Sublist"
begin

section \<open>TRACE AI backend: a shallow embedding of \<^verbatim>\<open>backend/main.py\<close>\<close>

text \<open>
  The service is a set of HTTP handlers around two external collaborators: a hosted
  chat-completion API and an HTTP client that fetches a privacy policy. Each handler is
  embedded as a function of an explicit environment (the collaborators) and of the
  validated request object; it returns the events it caused (outgoing calls and console
  lines, in order) together with the response object.
\<close>

subsection \<open>Python strings\<close>

text \<open>
  A Python \<^verbatim>\<open>str\<close> is a sequence of Unicode code points: \<^verbatim>\<open>len\<close> and slicing count code
  points, and one fallback text of the source holds the bullet U+2022. So a Python string
  is a list of code points here; \<open>py\<close> reads an ASCII literal.
\<close>

type_synonym pystr = "nat list"

definition py :: "string \<Rightarrow> pystr" where
  "py s = map of_char s"

text \<open>\<^verbatim>\<open>bytes\<close> (the body of an HTTP response) are a list of 8-bit characters.\<close>

type_synonym pybytes = "string"

subsection \<open>Exceptions\<close>

text \<open>
  Exceptions are values. Every exception modelled is an instance of \<^verbatim>\<open>Exception\<close>; the
  handlers tell \<^verbatim>\<open>httpx.HTTPError\<close> (and its subclasses: transport errors, timeouts, status
  errors) from the rest. Each carries the text that \<^verbatim>\<open>str(e)\<close> returns.
\<close>

datatype py_exception =
    HTTPError pystr
  | IndexError pystr
  | ValidationError pystr
  | OtherException pystr

fun str_exc :: "py_exception \<Rightarrow> pystr" where
  "str_exc (HTTPError m) = m"
| "str_exc (IndexError m) = m"
| "str_exc (ValidationError m) = m"
| "str_exc (OtherException m) = m"

fun is_HTTPError :: "py_exception \<Rightarrow> bool" where
  "is_HTTPError (HTTPError m) = True"
| "is_HTTPError e = False"

subsection \<open>Request and response models\<close>

text \<open>\<^verbatim>\<open>class ExplanationRequest(BaseModel): pass\<close> has no field.\<close>

datatype ExplanationRequest = ExplanationRequest

record DataRequestConcernRequest =
  form_purpose :: pystr
  form_html :: pystr

record PrivacyPolicyRequest =
  policy_url :: pystr

record ExplanationResponse =
  explanation :: pystr
  success :: bool
  error :: "pystr option"

subsection \<open>The external collaborators\<close>

text \<open>
  The keyword arguments of \<^verbatim>\<open>client.chat.completions.create\<close>. A message is the dict the
  source writes, as an association list; the temperature is the decimal literal of the
  source, read as a rational.
\<close>

record ai_request =
  model :: pystr
  messages :: "(pystr \<times> pystr) list list"
  max_tokens :: nat
  temperature :: rat

text \<open>
  Of a chat completion the handlers read \<^verbatim>\<open>response.choices[0].message.content\<close> only:
  \<open>choices\<close> holds the (optional) content of each choice's message.
\<close>

record ChatCompletion =
  choices :: "pystr option list"

record http_response =
  status_code :: nat
  content :: pybytes

text \<open>
  A parsed document, as BeautifulSoup holds it: tags with their children, text nodes and
  comments. Text inside a script or style element is an ordinary text node of the tree,
  so that only its removal keeps it out of the extracted text.
\<close>

datatype node =
    Tag pystr "node list"
  | NavigableString pystr
  | Comment pystr

text \<open>
  The environment: the chat-completion endpoint, the HTTP client's GET (redirects
  followed, timeout 30 s; it raises or returns a response), the text of the status error
  that \<^verbatim>\<open>raise_for_status\<close> raises, the HTML parser, and the text of pydantic's
  validation error.
\<close>

record env =
  chat_completions_create :: "ai_request \<Rightarrow> py_exception + ChatCompletion"
  http_get :: "pystr \<Rightarrow> py_exception + http_response"
  status_error_text :: "http_response \<Rightarrow> pystr"
  html_parser :: "pybytes \<Rightarrow> py_exception + node list"
  validation_error_text :: pystr

datatype event =
    AICall ai_request
  | HttpGet pystr
  | Print pystr

fun ai_calls :: "event list \<Rightarrow> ai_request list" where
  "ai_calls [] = []"
| "ai_calls (AICall r # evs) = r # ai_calls evs"
| "ai_calls (ev # evs) = ai_calls evs"

subsection \<open>Library operations the handlers use\<close>

text \<open>\<^verbatim>\<open>response.choices[0].message.content\<close>: indexing an empty list raises.\<close>

definition first_choice_content :: "ChatCompletion \<Rightarrow> py_exception + pystr option" where
  "first_choice_content response =
     (case choices response of
        [] \<Rightarrow> Inl (IndexError (py ''list index out of range''))
      | c # cs \<Rightarrow> Inr c)"

text \<open>
  \<^verbatim>\<open>ExplanationResponse(explanation=..., success=..., error=...)\<close>: the field
  \<^verbatim>\<open>explanation: str\<close> is validated, and \<^verbatim>\<open>None\<close> is refused.
\<close>

definition ExplanationResponse_init ::
    "env \<Rightarrow> pystr option \<Rightarrow> bool \<Rightarrow> pystr option \<Rightarrow> py_exception + ExplanationResponse" where
  "ExplanationResponse_init ev expl succ err =
     (case expl of
        None \<Rightarrow> Inl (ValidationError (validation_error_text ev))
      | Some s \<Rightarrow> Inr \<lparr>explanation = s, success = succ, error = err\<rparr>)"

text \<open>An f-string field prints \<^verbatim>\<open>None\<close> as the text None.\<close>

definition format_optional :: "pystr option \<Rightarrow> pystr" where
  "format_optional c = (case c of None \<Rightarrow> py ''None'' | Some s \<Rightarrow> s)"

text \<open>\<^verbatim>\<open>response.raise_for_status()\<close> of httpx: every status outside 2xx raises a status
  error, which is an \<^verbatim>\<open>httpx.HTTPError\<close>.\<close>

definition is_success :: "http_response \<Rightarrow> bool" where
  "is_success response = (200 \<le> status_code response \<and> status_code response \<le> 299)"

definition raise_for_status :: "env \<Rightarrow> http_response \<Rightarrow> py_exception + http_response" where
  "raise_for_status ev response =
     (if is_success response then Inr response
      else Inl (HTTPError (status_error_text ev response)))"

text \<open>\<^verbatim>\<open>str.splitlines()\<close>: the line boundaries of Python, with CR LF as one boundary; no
  empty last line.\<close>

definition is_linebreak :: "nat \<Rightarrow> bool" where
  "is_linebreak c = (c \<in> {10, 11, 12, 13, 28, 29, 30, 133, 8232, 8233})"

fun splitlines_from :: "pystr \<Rightarrow> pystr \<Rightarrow> pystr list" where
  "splitlines_from cur [] = (if cur = [] then [] else [cur])"
| "splitlines_from cur [c] =
     (if is_linebreak c then [cur] else [cur @ [c]])"
| "splitlines_from cur (c # d # cs) =
     (if c = 13 \<and> d = 10 then cur # splitlines_from [] cs
      else if is_linebreak c then cur # splitlines_from [] (d # cs)
      else splitlines_from (cur @ [c]) (d # cs))"

definition splitlines :: "pystr \<Rightarrow> pystr list" where
  "splitlines s = splitlines_from [] s"

text \<open>\<^verbatim>\<open>str.strip()\<close>: leading and trailing whitespace (Unicode) removed.\<close>

definition is_space :: "nat \<Rightarrow> bool" where
  "is_space c =
     ((9 \<le> c \<and> c \<le> 13) \<or> (28 \<le> c \<and> c \<le> 32) \<or> c = 133 \<or> c = 160 \<or> c = 5760
      \<or> (8192 \<le> c \<and> c \<le> 8202) \<or> c = 8232 \<or> c = 8233 \<or> c = 8239 \<or> c = 8287
      \<or> c = 12288)"

definition strip :: "pystr \<Rightarrow> pystr" where
  "strip s = rev (dropWhile is_space (rev (dropWhile is_space s)))"

text \<open>\<^verbatim>\<open>line.split("  ")\<close>: split at each occurrence of two spaces, left to right.\<close>

fun split_from :: "pystr \<Rightarrow> pystr \<Rightarrow> pystr list" where
  "split_from cur [] = [cur]"
| "split_from cur [c] = [cur @ [c]]"
| "split_from cur (c # d # cs) =
     (if c = 32 \<and> d = 32 then cur # split_from [] cs
      else split_from (cur @ [c]) (d # cs))"

definition split_double_space :: "pystr \<Rightarrow> pystr list" where
  "split_double_space s = split_from [] s"

text \<open>\<^verbatim>\<open>sep.join(parts)\<close>.\<close>

fun join :: "pystr \<Rightarrow> pystr list \<Rightarrow> pystr" where
  "join sep [] = []"
| "join sep [p] = p"
| "join sep (p # q # ps) = p @ sep @ join sep (q # ps)"

text \<open>
  \<^verbatim>\<open>for script in soup(names): script.decompose()\<close>: every tag whose name is listed is
  found (at any depth) and removed from the tree with all it contains.
\<close>

fun is_named :: "pystr list \<Rightarrow> node \<Rightarrow> bool" where
  "is_named names (Tag n cs) = (n \<in> set names)"
| "is_named names (NavigableString s) = False"
| "is_named names (Comment s) = False"

fun decompose :: "pystr list \<Rightarrow> node \<Rightarrow> node"
  and decompose_all :: "pystr list \<Rightarrow> node list \<Rightarrow> node list" where
  "decompose names (Tag n cs) = Tag n (decompose_all names cs)"
| "decompose names (NavigableString s) = NavigableString s"
| "decompose names (Comment s) = Comment s"
| "decompose_all names [] = []"
| "decompose_all names (c # cs) =
     (if is_named names c then decompose_all names cs
      else decompose names c # decompose_all names cs)"

text \<open>\<^verbatim>\<open>soup.get_text()\<close>: the text nodes of the tree in document order, joined with
  nothing between them; comments are left out.\<close>

fun node_text :: "node \<Rightarrow> pystr"
  and get_text :: "node list \<Rightarrow> pystr" where
  "node_text (Tag n cs) = get_text cs"
| "node_text (NavigableString s) = s"
| "node_text (Comment s) = []"
| "get_text [] = []"
| "get_text (c # cs) = node_text c @ get_text cs"

subsection \<open>The health endpoint\<close>

definition health_check :: "(pystr \<times> pystr) list" where
  "health_check =
     [(py ''status'', py ''healthy''),
      (py ''service'', py ''TRACE AI Backend''),
      (py ''version'', py ''1.0.0'')]"

subsection \<open>The fixed-prompt endpoints\<close>

definition ai_unavailable :: "py_exception \<Rightarrow> pystr" where
  "ai_unavailable e = py ''AI service unavailable, using fallback explanation: '' @ str_exc e"

definition insecure_submission_call :: ai_request where
  "insecure_submission_call =
     \<lparr>model = py ''gemini-2.5-flash-preview-05-20'',
      messages =
        [[(py ''role'', py ''system''),
          (py ''content'', py ''You are a cybersecurity expert explaining risks to non-technical users. Use simple, clear language and avoid technical jargon.'')],
         [(py ''role'', py ''user''),
          (py ''content'', py ''Explain in simple, non-technical terms why submitting a form over HTTP (instead of HTTPS) is dangerous. Focus on how this affects regular internet users. Keep it to 2-3 sentences and avoid technical jargon.'')]],
      max_tokens = 10000,
      temperature = 7 / 10\<rparr>"

definition insecure_submission_fallback :: pystr where
  "insecure_submission_fallback =
     py ''When a form sends data over HTTP instead of HTTPS, your information travels '' @
     py ''unencrypted across the internet. This means anyone monitoring network traffic '' @
     py ''could see your personal details, passwords, or other sensitive information.''"

text \<open>The body of the \<^verbatim>\<open>try\<close>: the call, the first choice's content, the response model.\<close>

definition explain_insecure_submission_try ::
    "env \<Rightarrow> ExplanationRequest \<Rightarrow> py_exception + ExplanationResponse" where
  "explain_insecure_submission_try ev request =
     (case chat_completions_create ev insecure_submission_call of
        Inl e \<Rightarrow> Inl e
      | Inr response \<Rightarrow>
          (case first_choice_content response of
             Inl e \<Rightarrow> Inl e
           | Inr c \<Rightarrow> ExplanationResponse_init ev c True None))"

definition explain_insecure_submission ::
    "env \<Rightarrow> ExplanationRequest \<Rightarrow> event list \<times> ExplanationResponse" where
  "explain_insecure_submission ev request =
     ([AICall insecure_submission_call],
      case explain_insecure_submission_try ev request of
        Inr r \<Rightarrow> r
      | Inl e \<Rightarrow>
          \<lparr>explanation = insecure_submission_fallback,
           success = True,
           error = Some (ai_unavailable e)\<rparr>)"

definition password_insecure_form_call :: ai_request where
  "password_insecure_form_call =
     \<lparr>model = py ''gemini-2.5-flash-preview-05-20'',
      messages =
        [[(py ''role'', py ''system''),
          (py ''content'', py ''You are a cybersecurity expert explaining risks to non-technical users. Use simple, clear language and avoid technical jargon.'')],
         [(py ''role'', py ''user''),
          (py ''content'', py ''Explain in simple terms why entering a password on an insecure (HTTP) form is extremely dangerous. Focus on what could happen to the user's password and accounts. Keep it to 2-3 sentences and use language that non-technical users can understand.'')]],
      max_tokens = 10000,
      temperature = 7 / 10\<rparr>"

definition password_insecure_form_fallback :: pystr where
  "password_insecure_form_fallback =
     py ''Entering your password on an insecure form is extremely risky because hackers can easily '' @
     py ''intercept your password as it travels to the website. They could then use your password '' @
     py ''to access your accounts and steal your personal information or money.''"

definition explain_password_insecure_form_try ::
    "env \<Rightarrow> ExplanationRequest \<Rightarrow> py_exception + ExplanationResponse" where
  "explain_password_insecure_form_try ev request =
     (case chat_completions_create ev password_insecure_form_call of
        Inl e \<Rightarrow> Inl e
      | Inr response \<Rightarrow>
          (case first_choice_content response of
             Inl e \<Rightarrow> Inl e
           | Inr c \<Rightarrow> ExplanationResponse_init ev c True None))"

definition explain_password_insecure_form ::
    "env \<Rightarrow> ExplanationRequest \<Rightarrow> event list \<times> ExplanationResponse" where
  "explain_password_insecure_form ev request =
     ([AICall password_insecure_form_call],
      case explain_password_insecure_form_try ev request of
        Inr r \<Rightarrow> r
      | Inl e \<Rightarrow>
          \<lparr>explanation = password_insecure_form_fallback,
           success = True,
           error = Some (ai_unavailable e)\<rparr>)"

subsection \<open>The data-request-concern endpoint\<close>

definition MAX_HTML_LENGTH :: nat where
  "MAX_HTML_LENGTH = 10000"

definition truncated_html :: "DataRequestConcernRequest \<Rightarrow> pystr" where
  "truncated_html request =
     (if length (form_html request) > MAX_HTML_LENGTH
      then take MAX_HTML_LENGTH (form_html request) @ py ''... [HTML truncated]''
      else form_html request)"

definition data_request_concern_call :: "pystr \<Rightarrow> ai_request" where
  "data_request_concern_call html =
     \<lparr>model = py ''gemini-2.5-flash-preview-05-20'',
      messages =
        [[(py ''role'', py ''system''),
          (py ''content'', py ''You are a privacy and security expert helping non-technical users understand data collection practices on web forms.\<newline>Your task is to analyze the provided HTML of a web form.\<newline>First, determine the likely purpose of the form based on its HTML content.\<newline>Then, identify any input fields, labels, or data requests within the HTML that seem unusual, excessive, or suspicious for the form's determined purpose.\<newline>Explain your findings in simple, clear, non-technical language.\<newline>Focus on practical advice and what the user should consider.\<newline>If specific fields are suspicious, mention them and why.\<newline>If the form seems reasonable for its determined purpose, state that.\<newline>Keep your explanation concise, ideally 2-4 sentences.'')],
         [(py ''role'', py ''user''),
          (py ''content'',
             py ''Please analyze the following HTML snippet of a web form:\<newline>---HTML START---\<newline>'' @
             html @
             py ''\<newline>---HTML END---\<newline>Determine the likely purpose of this form based on its HTML content. Then, identify any input fields or data requests within the HTML that seem unusual, excessive, or suspicious for the form's determined purpose.\<newline>Explain your findings in simple, non-technical terms. If specific fields are suspicious, mention them and why. If the form seems reasonable for its purpose, state that.'')]],
      max_tokens = 10000,
      temperature = 7 / 10\<rparr>"

definition data_request_concern_fallback :: "DataRequestConcernRequest \<Rightarrow> pystr" where
  "data_request_concern_fallback request =
     py ''When filling out a '' @ [39] @ form_purpose request @ [39] @
     py '' form, always consider if the information asked is truly necessary for the service. '' @
     py ''Be extra careful with sensitive data like your SSN, financial details, or very personal information, especially if the site isn't well-known or doesn't clearly state how your data is used. '' @
     py ''If something feels off, it's better to be cautious and not submit the form.''"

definition explain_data_request_concern_try ::
    "env \<Rightarrow> DataRequestConcernRequest \<Rightarrow> py_exception + ExplanationResponse" where
  "explain_data_request_concern_try ev request =
     (case chat_completions_create ev (data_request_concern_call (truncated_html request)) of
        Inl e \<Rightarrow> Inl e
      | Inr response \<Rightarrow>
          (case first_choice_content response of
             Inl e \<Rightarrow> Inl e
           | Inr c \<Rightarrow> ExplanationResponse_init ev c True None))"

definition explain_data_request_concern ::
    "env \<Rightarrow> DataRequestConcernRequest \<Rightarrow> event list \<times> ExplanationResponse" where
  "explain_data_request_concern ev request =
     ([AICall (data_request_concern_call (truncated_html request))],
      case explain_data_request_concern_try ev request of
        Inr r \<Rightarrow> r
      | Inl e \<Rightarrow>
          \<lparr>explanation = data_request_concern_fallback request,
           success = True,
           error = Some (ai_unavailable e)\<rparr>)"

subsection \<open>The privacy-policy endpoint\<close>

text \<open>The inner \<^verbatim>\<open>try\<close> of the fetch: the GET, then the status check.\<close>

definition fetch_policy :: "env \<Rightarrow> pystr \<Rightarrow> py_exception + http_response" where
  "fetch_policy ev url =
     (case http_get ev url of
        Inl e \<Rightarrow> Inl e
      | Inr response \<Rightarrow> raise_for_status ev response)"

definition policy_unreachable :: "pystr \<Rightarrow> ExplanationResponse" where
  "policy_unreachable m =
     \<lparr>explanation = py ''Unable to access the privacy policy. The link may be broken or the site may be blocking automated access.'',
      success = False,
      error = Some (py ''HTTP error: '' @ m)\<rparr>"

text \<open>Script and style elements removed, the text taken, whitespace collapsed.\<close>

definition clean_text :: "pystr \<Rightarrow> pystr" where
  "clean_text text_content =
     (let lines = map strip (splitlines text_content);
          chunks = concat (map (\<lambda>line. map strip (split_double_space line)) lines)
      in join (py '' '') (filter (\<lambda>chunk. chunk \<noteq> []) chunks))"

definition extract_text :: "node list \<Rightarrow> pystr" where
  "extract_text soup =
     clean_text (get_text (decompose_all [py ''script'', py ''style''] soup))"

definition limit_text :: "pystr \<Rightarrow> pystr" where
  "limit_text text_content =
     (if length text_content > 8000
      then take 8000 text_content @ py ''... [content truncated]''
      else text_content)"

definition privacy_policy_call :: "pystr \<Rightarrow> ai_request" where
  "privacy_policy_call text_content =
     \<lparr>model = py ''gemini-2.5-flash-preview-05-20'',
      messages =
        [[(py ''role'', py ''system''),
          (py ''content'', py ''You are a privacy expert helping non-technical users understand privacy policies. Focus on identifying concerning practices in simple, clear language.'')],
         [(py ''role'', py ''user''),
          (py ''content'',
             py ''Please analyze this privacy policy and identify the main red flags or concerning practices that a regular internet user should be aware of. \<newline>\<newline>Privacy Policy Text:\<newline>'' @
             text_content @
             py ''\<newline>\<newline>Please provide a concise summary focusing on:\<newline>1. How the company shares or sells user data\<newline>2. What data they collect beyond what's necessary\<newline>3. How long they keep user data\<newline>4. Any concerning clauses about data usage\<newline>\<newline>Format your response as bullet points in simple, non-technical language. Keep it to 3-4 key points maximum. If the policy seems reasonable, say so.'')]],
      max_tokens = 30000,
      temperature = 7 / 10\<rparr>"

text \<open>The inner \<^verbatim>\<open>try\<close> of the analysis, before its handler prints and re-raises.\<close>

definition analyze_try ::
    "env \<Rightarrow> ai_request \<Rightarrow> event list \<times> (py_exception + ExplanationResponse)" where
  "analyze_try ev call =
     (case chat_completions_create ev call of
        Inl e \<Rightarrow> ([AICall call], Inl e)
      | Inr ai_response \<Rightarrow>
          (case first_choice_content ai_response of
             Inl e \<Rightarrow> ([AICall call, Print (py ''AI request completed successfully'')], Inl e)
           | Inr c \<Rightarrow>
               ([AICall call,
                 Print (py ''AI request completed successfully''),
                 Print (py ''AI response: '' @ format_optional c)],
                ExplanationResponse_init ev c True None)))"

definition privacy_policy_fallback :: "py_exception \<Rightarrow> ExplanationResponse" where
  "privacy_policy_fallback e =
     \<lparr>explanation =
        py ''Unable to analyze this privacy policy automatically. '' @
        py ''When reviewing privacy policies yourself, look for: '' @
        [8226] @ py '' How they share your data with third parties '' @
        [8226] @ py '' What data they collect beyond what's necessary for their service '' @
        [8226] @ py '' How long they keep your information '' @
        [8226] @ py '' Whether you can delete your data easily'',
      success = True,
      error = Some (py ''Analysis service unavailable: '' @ str_exc e)\<rparr>"

definition analyze_privacy_policy ::
    "env \<Rightarrow> PrivacyPolicyRequest \<Rightarrow> event list \<times> ExplanationResponse" where
  "analyze_privacy_policy ev request =
     (case fetch_policy ev (policy_url request) of
        Inl e \<Rightarrow>
          (if is_HTTPError e
           then ([HttpGet (policy_url request)], policy_unreachable (str_exc e))
           else ([HttpGet (policy_url request)], privacy_policy_fallback e))
      | Inr response \<Rightarrow>
          (case html_parser ev (content response) of
             Inl e \<Rightarrow> ([HttpGet (policy_url request)], privacy_policy_fallback e)
           | Inr soup \<Rightarrow>
               (let text_content = limit_text (extract_text soup);
                    started = [HttpGet (policy_url request), Print (py ''Making AI request...'')]
                in case analyze_try ev (privacy_policy_call text_content) of
                     (evs, Inr r) \<Rightarrow> (started @ evs, r)
                   | (evs, Inl ai_error) \<Rightarrow>
                       (started @ evs @
                          [Print (py ''AI request failed with error: '' @ str_exc ai_error)],
                        privacy_policy_fallback ai_error))))"

subsection \<open>The routes of the application\<close>

datatype http_request =
    GET_root
  | POST_explain_insecure_submission ExplanationRequest
  | POST_explain_password_insecure_form ExplanationRequest
  | POST_explain_data_request_concern DataRequestConcernRequest
  | POST_analyze_privacy_policy PrivacyPolicyRequest

datatype http_reply =
    Payload "(pystr \<times> pystr) list"
  | Explanation ExplanationResponse

fun app :: "env \<Rightarrow> http_request \<Rightarrow> event list \<times> http_reply" where
  "app ev GET_root = ([], Payload health_check)"
| "app ev (POST_explain_insecure_submission request) =
     (case explain_insecure_submission ev request of (evs, r) \<Rightarrow> (evs, Explanation r))"
| "app ev (POST_explain_password_insecure_form request) =
     (case explain_password_insecure_form ev request of (evs, r) \<Rightarrow> (evs, Explanation r))"
| "app ev (POST_explain_data_request_concern request) =
     (case explain_data_request_concern ev request of (evs, r) \<Rightarrow> (evs, Explanation r))"
| "app ev (POST_analyze_privacy_policy request) =
     (case analyze_privacy_policy ev request of (evs, r) \<Rightarrow> (evs, Explanation r))"

subsection \<open>Example environments\<close>

text \<open>
  A small policy page with a script element, a site that serves it, and an AI endpoint
  that is over quota; then the same with an AI endpoint that answers with an empty text,
  with one that answers with a short text, and with a site that answers 404.
\<close>

definition example_soup :: "node list" where
  "example_soup =
     [Tag (py ''p'') [NavigableString (py ''We sell your data.'')],
      Tag (py ''script'') [NavigableString (py ''track()'')]]"

definition quota_env :: env where
  "quota_env =
     \<lparr>chat_completions_create = (\<lambda>call. Inl (OtherException (py ''quota exceeded''))),
      http_get = (\<lambda>url. Inr \<lparr>status_code = 200, content = ''<p>We sell your data.</p><script>track()</script>''\<rparr>),
      status_error_text = (\<lambda>response. py ''Client error''),
      html_parser = (\<lambda>body. Inr example_soup),
      validation_error_text = py ''1 validation error for ExplanationResponse''\<rparr>"

definition empty_reply_env :: env where
  "empty_reply_env =
     quota_env\<lparr>chat_completions_create := (\<lambda>call. Inr \<lparr>choices = [Some []]\<rparr>)\<rparr>"


definition not_found_env :: env where
  "not_found_env =
     quota_env\<lparr>http_get := (\<lambda>url. Inr \<lparr>status_code = 404, content = []\<rparr>)\<rparr>"

definition example_policy_request :: PrivacyPolicyRequest where
  "example_policy_request = \<lparr>policy_url = py ''https://example.com/privacy''\<rparr>"

definition long_form_request :: DataRequestConcernRequest where
  "long_form_request = \<lparr>form_purpose = py ''login'', form_html = replicate 10001 60\<rparr>"

text \<open>
  A policy page whose visible text is longer than the 8,000 characters kept, beside a
  style element.
\<close>

definition long_policy_soup :: "node list" where
  "long_policy_soup =
     [Tag (py ''p'') [NavigableString (replicate 8001 97)],
      Tag (py ''style'') [NavigableString (py ''p { color: red }'')]]"

definition long_policy_env :: env where
  "long_policy_env = quota_env\<lparr>html_parser := (\<lambda>body. Inr long_policy_soup)\<rparr>"

subsection \<open>A document outside its script and style elements\<close>

text \<open>
  To state that the contents of the listed elements do not reach the extracted text:
  the same tree with every listed element emptied. Two documents with the same image
  differ only inside those elements.
\<close>

fun outside :: "pystr list \<Rightarrow> node \<Rightarrow> node"
  and outside_all :: "pystr list \<Rightarrow> node list \<Rightarrow> node list" where
  "outside names (Tag n cs) =
     (if n \<in> set names then Tag n [] else Tag n (outside_all names cs))"
| "outside names (NavigableString s) = NavigableString s"
| "outside names (Comment s) = Comment s"
| "outside_all names [] = []"
| "outside_all names (c # cs) = outside names c # outside_all names cs"

section \<open>Properties\<close>

subsection \<open>Helper facts about strings\<close>

lemma py_append: "py (a @ b) = py a @ py b"
  by (simp add: py_def)


lemma length_py: "length (py s) = length s"
  by (simp add: py_def)

lemma dict_keys_distinct: "py ''role'' \<noteq> py ''content''"
  by (simp add: py_def)

subsection \<open>Fallbacks of the fixed-prompt endpoints\<close>

text \<open>
  C1: on the two fixed-prompt endpoints, whenever the AI call raises, the response carries
  that endpoint's hardcoded fallback text character for character, \<open>success\<close> is true, and
  \<open>error\<close> is the prefix \<^verbatim>\<open>AI service unavailable, using fallback explanation: \<close> followed by
  the text of the exception caught.
\<close>

theorem fixed_prompt_fallback:
  "(chat_completions_create ev insecure_submission_call = Inl e \<longrightarrow>
      snd (explain_insecure_submission ev request) =
        \<lparr>explanation = py ''When a form sends data over HTTP instead of HTTPS, your information travels unencrypted across the internet. This means anyone monitoring network traffic could see your personal details, passwords, or other sensitive information.'',
         success = True,
         error = Some (py ''AI service unavailable, using fallback explanation: '' @ str_exc e)\<rparr>)
   \<and> (chat_completions_create ev password_insecure_form_call = Inl e \<longrightarrow>
      snd (explain_password_insecure_form ev request) =
        \<lparr>explanation = py ''Entering your password on an insecure form is extremely risky because hackers can easily intercept your password as it travels to the website. They could then use your password to access your accounts and steal your personal information or money.'',
         success = True,
         error = Some (py ''AI service unavailable, using fallback explanation: '' @ str_exc e)\<rparr>)"
  by (simp add: explain_insecure_submission_def explain_insecure_submission_try_def
      explain_password_insecure_form_def explain_password_insecure_form_try_def
      insecure_submission_fallback_def password_insecure_form_fallback_def ai_unavailable_def
      py_append [symmetric])

theorem fixed_prompt_fallback_witness:
  "snd (explain_insecure_submission quota_env ExplanationRequest) =
        \<lparr>explanation = py ''When a form sends data over HTTP instead of HTTPS, your information travels unencrypted across the internet. This means anyone monitoring network traffic could see your personal details, passwords, or other sensitive information.'',
         success = True,
         error = Some (py ''AI service unavailable, using fallback explanation: quota exceeded'')\<rparr>
   \<and> snd (explain_password_insecure_form quota_env ExplanationRequest) =
        \<lparr>explanation = py ''Entering your password on an insecure form is extremely risky because hackers can easily intercept your password as it travels to the website. They could then use your password to access your accounts and steal your personal information or money.'',
         success = True,
         error = Some (py ''AI service unavailable, using fallback explanation: quota exceeded'')\<rparr>"
  using fixed_prompt_fallback [of quota_env "OtherException (py ''quota exceeded'')" ExplanationRequest]
  by (simp add: quota_env_def py_append [symmetric])

subsection \<open>The privacy-policy endpoint: fetch failure and AI failure\<close>

lemma fetch_policy_cases:
  "(http_get ev url = Inl e \<and> is_HTTPError e)
     \<or> (\<exists>r. http_get ev url = Inr r \<and> \<not> is_success r \<and> e = HTTPError (status_error_text ev r))
   \<Longrightarrow> fetch_policy ev url = Inl e \<and> is_HTTPError e"
  by (auto simp: fetch_policy_def raise_for_status_def)

lemma py_append_more: "py a @ py b @ r = py (a @ b) @ r"
  by (simp add: py_def)

text \<open>
  C2: when the page fetch fails at the HTTP layer (the GET raises an \<^verbatim>\<open>httpx.HTTPError\<close>:
  timeout, DNS or connection failure; or the status is not 2xx, so that
  \<^verbatim>\<open>raise_for_status\<close> raises one), the handler returns at once: the only event is the GET, no
  AI call is made, \<open>success\<close> is false, the explanation is the static text, and \<open>error\<close> is
  \<^verbatim>\<open>HTTP error: \<close> followed by the text of the fetch error. The handler returns a response:
  no exception escapes.
\<close>

theorem privacy_policy_fetch_failure:
  assumes "(http_get ev (policy_url request) = Inl e \<and> is_HTTPError e)
     \<or> (\<exists>r. http_get ev (policy_url request) = Inr r \<and> \<not> is_success r
            \<and> e = HTTPError (status_error_text ev r))"
  shows "analyze_privacy_policy ev request =
     ([HttpGet (policy_url request)],
      \<lparr>explanation = py ''Unable to access the privacy policy. The link may be broken or the site may be blocking automated access.'',
       success = False,
       error = Some (py ''HTTP error: '' @ str_exc e)\<rparr>)
    \<and> ai_calls (fst (analyze_privacy_policy ev request)) = []"
proof -
  from assms have "fetch_policy ev (policy_url request) = Inl e" and "is_HTTPError e"
    using fetch_policy_cases by blast+
  then show ?thesis
    by (simp add: analyze_privacy_policy_def policy_unreachable_def)
qed

theorem privacy_policy_fetch_failure_witness:
  "analyze_privacy_policy not_found_env example_policy_request =
     ([HttpGet (py ''https://example.com/privacy'')],
      \<lparr>explanation = py ''Unable to access the privacy policy. The link may be broken or the site may be blocking automated access.'',
       success = False,
       error = Some (py ''HTTP error: Client error'')\<rparr>)
    \<and> ai_calls (fst (analyze_privacy_policy not_found_env example_policy_request)) = []"
  using privacy_policy_fetch_failure [of not_found_env example_policy_request "HTTPError (py ''Client error'')"]
  by (simp add: not_found_env_def quota_env_def example_policy_request_def is_success_def
      py_append [symmetric])

text \<open>
  C3: when the page was fetched and parsed and the AI call raises, the explanation is the
  static checklist (with its four bullets U+2022) character for character, \<open>success\<close> is
  true, and \<open>error\<close> is \<^verbatim>\<open>Analysis service unavailable: \<close> followed by the exception's text.
\<close>

theorem privacy_policy_ai_failure:
  assumes "fetch_policy ev (policy_url request) = Inr response"
    and "html_parser ev (content response) = Inr soup"
    and "chat_completions_create ev (privacy_policy_call (limit_text (extract_text soup))) = Inl e"
  shows "snd (analyze_privacy_policy ev request) =
      \<lparr>explanation =
         py ''Unable to analyze this privacy policy automatically. When reviewing privacy policies yourself, look for: '' @ [8226] @
         py '' How they share your data with third parties '' @ [8226] @
         py '' What data they collect beyond what's necessary for their service '' @ [8226] @
         py '' How long they keep your information '' @ [8226] @
         py '' Whether you can delete your data easily'',
       success = True,
       error = Some (py ''Analysis service unavailable: '' @ str_exc e)\<rparr>"
  using assms
  by (simp add: analyze_privacy_policy_def analyze_try_def privacy_policy_fallback_def
      py_append_more)

theorem privacy_policy_ai_failure_witness:
  "snd (analyze_privacy_policy quota_env example_policy_request) =
      \<lparr>explanation =
         py ''Unable to analyze this privacy policy automatically. When reviewing privacy policies yourself, look for: '' @ [8226] @
         py '' How they share your data with third parties '' @ [8226] @
         py '' What data they collect beyond what's necessary for their service '' @ [8226] @
         py '' How long they keep your information '' @ [8226] @
         py '' Whether you can delete your data easily'',
       success = True,
       error = Some (py ''Analysis service unavailable: quota exceeded'')\<rparr>"
  using privacy_policy_ai_failure [of quota_env example_policy_request
      "\<lparr>status_code = 200, content = ''<p>We sell your data.</p><script>track()</script>''\<rparr>"
      example_soup "OtherException (py ''quota exceeded'')"]
  by (simp add: quota_env_def example_policy_request_def fetch_policy_def raise_for_status_def
      is_success_def py_append [symmetric])

subsection \<open>The data-request-concern fallback\<close>

text \<open>
  C6: on the data-request-concern endpoint, whenever the AI call raises, the fallback
  explanation is the caution template with the caller's \<open>form_purpose\<close> interpolated between
  quotes, so it contains \<open>form_purpose\<close> verbatim as a substring; \<open>success\<close> is true.
\<close>

theorem data_request_concern_fallback_names_purpose:
  assumes "chat_completions_create ev (data_request_concern_call (truncated_html request)) = Inl e"
  shows "sublist (form_purpose request) (explanation (snd (explain_data_request_concern ev request)))
    \<and> explanation (snd (explain_data_request_concern ev request)) =
        py ''When filling out a '' @ [39] @ form_purpose request @ [39] @
        py '' form, always consider if the information asked is truly necessary for the service. Be extra careful with sensitive data like your SSN, financial details, or very personal information, especially if the site isn't well-known or doesn't clearly state how your data is used. If something feels off, it's better to be cautious and not submit the form.''
    \<and> success (snd (explain_data_request_concern ev request))"
proof -
  have expl: "explanation (snd (explain_data_request_concern ev request)) =
      data_request_concern_fallback request"
    using assms
    by (simp add: explain_data_request_concern_def explain_data_request_concern_try_def)
  have succ: "success (snd (explain_data_request_concern ev request))"
    using assms
    by (simp add: explain_data_request_concern_def explain_data_request_concern_try_def)
  have "sublist (form_purpose request) (data_request_concern_fallback request)"
    unfolding data_request_concern_fallback_def sublist_def
    by (metis append.assoc)
  with expl succ show ?thesis
    by (simp add: data_request_concern_fallback_def py_append [symmetric])
qed

theorem data_request_concern_fallback_names_purpose_witness:
  "sublist (py ''login'') (explanation (snd (explain_data_request_concern quota_env long_form_request)))
    \<and> success (snd (explain_data_request_concern quota_env long_form_request))"
proof -
  have raised: "chat_completions_create quota_env
      (data_request_concern_call (truncated_html long_form_request)) =
        Inl (OtherException (py ''quota exceeded''))"
    by (simp add: quota_env_def)
  have purpose: "form_purpose long_form_request = py ''login''"
    by (simp add: long_form_request_def)
  from data_request_concern_fallback_names_purpose [OF raised]
  have "sublist (form_purpose long_form_request)
      (explanation (snd (explain_data_request_concern quota_env long_form_request)))"
    and "success (snd (explain_data_request_concern quota_env long_form_request))"
    by blast+
  then show ?thesis
    unfolding purpose by blast
qed

subsection \<open>The health endpoint\<close>

text \<open>
  C9: GET / returns the fixed payload with status healthy, service TRACE AI Backend and
  version 1.0.0, whatever the environment (so whatever the AI endpoint does), and it
  causes no event: no call is made that could fail.
\<close>

theorem health_check_fixed:
  "app ev GET_root =
     ([], Payload [(py ''status'', py ''healthy''),
                   (py ''service'', py ''TRACE AI Backend''),
                   (py ''version'', py ''1.0.0'')])"
  by (simp add: health_check_def)

theorem health_check_fixed_witness:
  "app quota_env GET_root = app empty_reply_env GET_root
   \<and> snd (app quota_env GET_root) =
       Payload [(py ''status'', py ''healthy''),
                (py ''service'', py ''TRACE AI Backend''),
                (py ''version'', py ''1.0.0'')]"
  using health_check_fixed [of quota_env] health_check_fixed [of empty_reply_env]
  by simp

subsection \<open>Truncation of the form HTML\<close>

text \<open>
  C4: the data-request-concern handler makes one AI call, whose user message holds
  \<open>truncated_html\<close> between the two fixed parts of the prompt. When \<open>form_html\<close> is longer
  than 10,000 characters, that is the first 10,000 characters followed by the marker
  \<^verbatim>\<open>... [HTML truncated]\<close>: it ends with the marker and its length is 10,000 plus the
  marker's length. Otherwise it is \<open>form_html\<close> unchanged.
\<close>

theorem form_html_truncation:
  "fst (explain_data_request_concern ev request) =
      [AICall (data_request_concern_call (truncated_html request))]
   \<and> messages (data_request_concern_call (truncated_html request)) =
        [[(py ''role'', py ''system''),
          (py ''content'', py ''You are a privacy and security expert helping non-technical users understand data collection practices on web forms.\<newline>Your task is to analyze the provided HTML of a web form.\<newline>First, determine the likely purpose of the form based on its HTML content.\<newline>Then, identify any input fields, labels, or data requests within the HTML that seem unusual, excessive, or suspicious for the form's determined purpose.\<newline>Explain your findings in simple, clear, non-technical language.\<newline>Focus on practical advice and what the user should consider.\<newline>If specific fields are suspicious, mention them and why.\<newline>If the form seems reasonable for its determined purpose, state that.\<newline>Keep your explanation concise, ideally 2-4 sentences.'')],
         [(py ''role'', py ''user''),
          (py ''content'',
             py ''Please analyze the following HTML snippet of a web form:\<newline>---HTML START---\<newline>'' @
             truncated_html request @
             py ''\<newline>---HTML END---\<newline>Determine the likely purpose of this form based on its HTML content. Then, identify any input fields or data requests within the HTML that seem unusual, excessive, or suspicious for the form's determined purpose.\<newline>Explain your findings in simple, non-technical terms. If specific fields are suspicious, mention them and why. If the form seems reasonable for its purpose, state that.'')]]
   \<and> (length (form_html request) > 10000 \<longrightarrow>
        truncated_html request = take 10000 (form_html request) @ py ''... [HTML truncated]''
        \<and> suffix (py ''... [HTML truncated]'') (truncated_html request)
        \<and> length (truncated_html request) = 10000 + length (py ''... [HTML truncated]''))
   \<and> (length (form_html request) \<le> 10000 \<longrightarrow> truncated_html request = form_html request)"
proof -
  have "fst (explain_data_request_concern ev request) =
      [AICall (data_request_concern_call (truncated_html request))]"
    by (simp add: explain_data_request_concern_def)
  moreover have "messages (data_request_concern_call (truncated_html request)) =
        [[(py ''role'', py ''system''),
          (py ''content'', py ''You are a privacy and security expert helping non-technical users understand data collection practices on web forms.\<newline>Your task is to analyze the provided HTML of a web form.\<newline>First, determine the likely purpose of the form based on its HTML content.\<newline>Then, identify any input fields, labels, or data requests within the HTML that seem unusual, excessive, or suspicious for the form's determined purpose.\<newline>Explain your findings in simple, clear, non-technical language.\<newline>Focus on practical advice and what the user should consider.\<newline>If specific fields are suspicious, mention them and why.\<newline>If the form seems reasonable for its determined purpose, state that.\<newline>Keep your explanation concise, ideally 2-4 sentences.'')],
         [(py ''role'', py ''user''),
          (py ''content'',
             py ''Please analyze the following HTML snippet of a web form:\<newline>---HTML START---\<newline>'' @
             truncated_html request @
             py ''\<newline>---HTML END---\<newline>Determine the likely purpose of this form based on its HTML content. Then, identify any input fields or data requests within the HTML that seem unusual, excessive, or suspicious for the form's determined purpose.\<newline>Explain your findings in simple, non-technical terms. If specific fields are suspicious, mention them and why. If the form seems reasonable for its purpose, state that.'')]]"
    by (simp add: data_request_concern_call_def)
  moreover have "length (form_html request) > 10000 \<longrightarrow>
        truncated_html request = take 10000 (form_html request) @ py ''... [HTML truncated]''
        \<and> suffix (py ''... [HTML truncated]'') (truncated_html request)
        \<and> length (truncated_html request) = 10000 + length (py ''... [HTML truncated]'')"
    by (simp add: truncated_html_def MAX_HTML_LENGTH_def suffix_def)
  moreover have "length (form_html request) \<le> 10000 \<longrightarrow> truncated_html request = form_html request"
    by (simp add: truncated_html_def MAX_HTML_LENGTH_def)
  ultimately show ?thesis
    by blast
qed

theorem form_html_truncation_witness:
  "truncated_html long_form_request = replicate 10000 60 @ py ''... [HTML truncated]''
   \<and> length (truncated_html long_form_request) = 10020
   \<and> truncated_html \<lparr>form_purpose = py ''login'', form_html = py ''<form></form>''\<rparr>
       = py ''<form></form>''
   \<and> map_of (messages (data_request_concern_call (truncated_html long_form_request)) ! 1)
        (py ''content'') =
       Some (py ''Please analyze the following HTML snippet of a web form:\<newline>---HTML START---\<newline>'' @
             replicate 10000 60 @ py ''... [HTML truncated]'' @
             py ''\<newline>---HTML END---\<newline>Determine the likely purpose of this form based on its HTML content. Then, identify any input fields or data requests within the HTML that seem unusual, excessive, or suspicious for the form's determined purpose.\<newline>Explain your findings in simple, non-technical terms. If specific fields are suspicious, mention them and why. If the form seems reasonable for its purpose, state that.'')"
proof -
  have long: "length (form_html long_form_request) > 10000"
    and html: "form_html long_form_request = replicate 10001 60"
    by (simp_all add: long_form_request_def)
  from form_html_truncation [of quota_env long_form_request]
  have all_msgs: "messages (data_request_concern_call (truncated_html long_form_request)) =
        [[(py ''role'', py ''system''),
          (py ''content'', py ''You are a privacy and security expert helping non-technical users understand data collection practices on web forms.\<newline>Your task is to analyze the provided HTML of a web form.\<newline>First, determine the likely purpose of the form based on its HTML content.\<newline>Then, identify any input fields, labels, or data requests within the HTML that seem unusual, excessive, or suspicious for the form's determined purpose.\<newline>Explain your findings in simple, clear, non-technical language.\<newline>Focus on practical advice and what the user should consider.\<newline>If specific fields are suspicious, mention them and why.\<newline>If the form seems reasonable for its determined purpose, state that.\<newline>Keep your explanation concise, ideally 2-4 sentences.'')],
         [(py ''role'', py ''user''),
          (py ''content'',
             py ''Please analyze the following HTML snippet of a web form:\<newline>---HTML START---\<newline>'' @
             truncated_html long_form_request @
             py ''\<newline>---HTML END---\<newline>Determine the likely purpose of this form based on its HTML content. Then, identify any input fields or data requests within the HTML that seem unusual, excessive, or suspicious for the form's determined purpose.\<newline>Explain your findings in simple, non-technical terms. If specific fields are suspicious, mention them and why. If the form seems reasonable for its purpose, state that.'')]]"
    and above: "length (form_html long_form_request) > 10000 \<longrightarrow>
        truncated_html long_form_request =
          take 10000 (form_html long_form_request) @ py ''... [HTML truncated]''
        \<and> suffix (py ''... [HTML truncated]'') (truncated_html long_form_request)
        \<and> length (truncated_html long_form_request) = 10000 + length (py ''... [HTML truncated]'')"
    by blast+
  from above long
  have sent: "truncated_html long_form_request =
      take 10000 (form_html long_form_request) @ py ''... [HTML truncated]''"
    and len: "length (truncated_html long_form_request) = 10000 + length (py ''... [HTML truncated]'')"
    by blast+
  have msgs: "messages (data_request_concern_call (truncated_html long_form_request)) ! 1 =
         [(py ''role'', py ''user''),
          (py ''content'',
             py ''Please analyze the following HTML snippet of a web form:\<newline>---HTML START---\<newline>'' @
             truncated_html long_form_request @
             py ''\<newline>---HTML END---\<newline>Determine the likely purpose of this form based on its HTML content. Then, identify any input fields or data requests within the HTML that seem unusual, excessive, or suspicious for the form's determined purpose.\<newline>Explain your findings in simple, non-technical terms. If specific fields are suspicious, mention them and why. If the form seems reasonable for its purpose, state that.'')]"
    unfolding all_msgs by simp
  from sent have sent': "truncated_html long_form_request = replicate 10000 60 @ py ''... [HTML truncated]''"
    by (simp add: html)
  from form_html_truncation [of quota_env "\<lparr>form_purpose = py ''login'', form_html = py ''<form></form>''\<rparr>"]
  have short: "truncated_html \<lparr>form_purpose = py ''login'', form_html = py ''<form></form>''\<rparr>
       = py ''<form></form>''"
    by (simp add: length_py)
  from len have len': "length (truncated_html long_form_request) = 10020"
    by (simp add: length_py)
  have "map_of (messages (data_request_concern_call (truncated_html long_form_request)) ! 1)
        (py ''content'') =
       Some (py ''Please analyze the following HTML snippet of a web form:\<newline>---HTML START---\<newline>'' @
             truncated_html long_form_request @
             py ''\<newline>---HTML END---\<newline>Determine the likely purpose of this form based on its HTML content. Then, identify any input fields or data requests within the HTML that seem unusual, excessive, or suspicious for the form's determined purpose.\<newline>Explain your findings in simple, non-technical terms. If specific fields are suspicious, mention them and why. If the form seems reasonable for its purpose, state that.'')"
    unfolding msgs using dict_keys_distinct by simp
  with sent' short len' show ?thesis
    by simp
qed

subsection \<open>Text extraction of the privacy-policy endpoint\<close>

lemma linebreak_is_space: "is_linebreak c \<Longrightarrow> is_space c"
  by (auto simp: is_linebreak_def is_space_def)

lemma is_linebreak_CR: "is_linebreak 13"
  by (simp add: is_linebreak_def)

lemma splitlines_from_plain:
  "\<forall>c \<in> set s. \<not> is_linebreak c \<Longrightarrow>
   splitlines_from cur s = (if cur @ s = [] then [] else [cur @ s])"
  by (induction cur s rule: splitlines_from.induct) (use is_linebreak_CR in auto)

lemma split_from_plain:
  "\<forall>c \<in> set s. c \<noteq> 32 \<Longrightarrow> split_from cur s = [cur @ s]"
  by (induction cur s rule: split_from.induct) simp_all

lemma dropWhile_plain: "\<forall>c \<in> set s. \<not> P c \<Longrightarrow> dropWhile P s = s"
  by (cases s) simp_all

lemma strip_plain:
  "\<forall>c \<in> set s. \<not> is_space c \<Longrightarrow> strip s = s"
  by (simp add: strip_def dropWhile_plain)

lemma clean_text_plain:
  assumes "s \<noteq> []" and plain: "\<forall>c \<in> set s. \<not> is_space c"
  shows "clean_text s = s"
proof -
  from plain have nolb: "\<forall>c \<in> set s. \<not> is_linebreak c"
    using linebreak_is_space by blast
  have "\<not> is_space c \<Longrightarrow> c \<noteq> 32" for c
    by (auto simp: is_space_def)
  with plain have nosp: "\<forall>c \<in> set s. c \<noteq> 32"
    by blast
  have lines: "splitlines s = [s]"
    using splitlines_from_plain [OF nolb, of "[]"] \<open>s \<noteq> []\<close> by (simp add: splitlines_def)
  have chunks: "split_double_space s = [s]"
    using split_from_plain [OF nosp, of "[]"] by (simp add: split_double_space_def)
  show ?thesis
    using \<open>s \<noteq> []\<close> by (simp add: clean_text_def lines chunks strip_plain [OF plain])
qed

text \<open>The clean-up on a small text: lines stripped, runs of spaces and empty lines dropped.\<close>

lemma clean_text_example:
  "clean_text (py ''  Hello   world\<newline>\<newline> second  line '') = py ''Hello world second line''"
  by (simp add: clean_text_def splitlines_def split_double_space_def strip_def
      py_def is_linebreak_def is_space_def)

lemma tag_names_distinct: "py ''p'' \<noteq> py ''script''" "py ''p'' \<noteq> py ''style''"
  by (simp_all add: py_def)

lemma extract_text_paragraph:
  assumes "s \<noteq> []" and "\<forall>c \<in> set s. \<not> is_space c"
  shows "extract_text
      [Tag (py ''p'') [NavigableString s], Tag (py ''style'') [NavigableString t]] = s"
proof -
  from tag_names_distinct have "get_text (decompose_all [py ''script'', py ''style'']
      [Tag (py ''p'') [NavigableString s], Tag (py ''style'') [NavigableString t]]) = s"
    by simp
  with clean_text_plain [OF assms] show ?thesis
    by (simp add: extract_text_def)
qed

lemma long_text_plain:
  "replicate 8001 (97::nat) \<noteq> [] \<and> (\<forall>c \<in> set (replicate 8001 (97::nat)). \<not> is_space c)"
  by (simp add: is_space_def)

lemma extract_text_long_policy_soup: "extract_text long_policy_soup = replicate 8001 97"
  unfolding long_policy_soup_def
  using long_text_plain by (intro extract_text_paragraph) blast+

lemma ai_calls_append: "ai_calls (xs @ ys) = ai_calls xs @ ai_calls ys"
  by (induction xs rule: ai_calls.induct) simp_all

lemma ai_calls_analyze_try: "ai_calls (fst (analyze_try ev call)) = [call]"
  by (simp add: analyze_try_def split: sum.splits)

lemma ai_calls_analyze_privacy_policy:
  assumes "fetch_policy ev (policy_url request) = Inr response"
    and "html_parser ev (content response) = Inr soup"
  shows "ai_calls (fst (analyze_privacy_policy ev request)) =
      [privacy_policy_call (limit_text (extract_text soup))]"
proof -
  obtain evs res where tr: "analyze_try ev (privacy_policy_call (limit_text (extract_text soup))) = (evs, res)"
    by (cases "analyze_try ev (privacy_policy_call (limit_text (extract_text soup)))")
  with ai_calls_analyze_try [of ev "privacy_policy_call (limit_text (extract_text soup))"]
  have "ai_calls evs = [privacy_policy_call (limit_text (extract_text soup))]"
    by simp
  with assms tr show ?thesis
    by (cases res) (simp_all add: analyze_privacy_policy_def ai_calls_append)
qed

lemma example_fetch:
  "fetch_policy long_policy_env (policy_url example_policy_request) =
      Inr \<lparr>status_code = 200, content = ''<p>We sell your data.</p><script>track()</script>''\<rparr>"
  "fetch_policy quota_env (policy_url example_policy_request) =
      Inr \<lparr>status_code = 200, content = ''<p>We sell your data.</p><script>track()</script>''\<rparr>"
  by (simp_all add: long_policy_env_def quota_env_def fetch_policy_def raise_for_status_def
      is_success_def)

lemma example_parse:
  "html_parser long_policy_env body = Inr long_policy_soup"
  "html_parser quota_env body = Inr example_soup"
  by (simp_all add: long_policy_env_def quota_env_def)

lemma is_named_outside: "is_named names (outside names c) = is_named names c"
  by (cases c) simp_all

lemma decompose_outside:
  "\<not> is_named names c \<Longrightarrow> decompose names (outside names c) = decompose names c"
  "decompose_all names (outside_all names cs) = decompose_all names cs"
  by (induction names c and names cs rule: decompose_decompose_all.induct)
    (simp_all add: is_named_outside)

lemma extract_text_outside:
  "extract_text (outside_all [py ''script'', py ''style''] soup) = extract_text soup"
  by (simp add: extract_text_def decompose_outside)

lemma example_soup_outside:
  "outside_all [py ''script'', py ''style''] example_soup =
     [Tag (py ''p'') [NavigableString (py ''We sell your data.'')], Tag (py ''script'') []]"
  using tag_names_distinct by (simp add: example_soup_def)

lemma example_text_plain:
  "extract_text [Tag (py ''p'') [NavigableString (py ''We sell your data.'')], Tag (py ''script'') []]
     = py ''We sell your data.''"
  by (simp add: extract_text_def clean_text_def splitlines_def split_double_space_def strip_def
      py_def is_linebreak_def is_space_def)

lemma other_soup_outside:
  "outside_all [py ''script'', py ''style'']
        [Tag (py ''p'') [NavigableString (py ''We sell your data.'')],
         Tag (py ''script'') [NavigableString (py ''steal(document.cookie)'')]] =
     [Tag (py ''p'') [NavigableString (py ''We sell your data.'')], Tag (py ''script'') []]"
  using tag_names_distinct by simp

lemma limit_text_short: "limit_text (py ''We sell your data.'') = py ''We sell your data.''"
  by (simp add: limit_text_def length_py)

text \<open>
  C7: after a successful fetch (and parse) the privacy-policy handler makes one AI call,
  whose user message holds, between the two fixed parts of the prompt, the cleaned
  extracted text: when that text is longer than 8,000 characters, its first 8,000
  characters followed by the marker \<^verbatim>\<open>... [content truncated]\<close>; otherwise the cleaned
  text unchanged.
\<close>

theorem policy_text_truncation:
  assumes "fetch_policy ev (policy_url request) = Inr response"
    and "html_parser ev (content response) = Inr soup"
  shows "ai_calls (fst (analyze_privacy_policy ev request)) =
      [privacy_policy_call (limit_text (extract_text soup))]
    \<and> messages (privacy_policy_call (limit_text (extract_text soup))) =
        [[(py ''role'', py ''system''),
          (py ''content'', py ''You are a privacy expert helping non-technical users understand privacy policies. Focus on identifying concerning practices in simple, clear language.'')],
         [(py ''role'', py ''user''),
          (py ''content'',
             py ''Please analyze this privacy policy and identify the main red flags or concerning practices that a regular internet user should be aware of. \<newline>\<newline>Privacy Policy Text:\<newline>'' @
             limit_text (extract_text soup) @
             py ''\<newline>\<newline>Please provide a concise summary focusing on:\<newline>1. How the company shares or sells user data\<newline>2. What data they collect beyond what's necessary\<newline>3. How long they keep user data\<newline>4. Any concerning clauses about data usage\<newline>\<newline>Format your response as bullet points in simple, non-technical language. Keep it to 3-4 key points maximum. If the policy seems reasonable, say so.'')]]
    \<and> (length (extract_text soup) > 8000 \<longrightarrow>
         limit_text (extract_text soup) =
           take 8000 (extract_text soup) @ py ''... [content truncated]'')
    \<and> (length (extract_text soup) \<le> 8000 \<longrightarrow>
         limit_text (extract_text soup) = extract_text soup)"
  using ai_calls_analyze_privacy_policy [OF assms]
  by (simp add: limit_text_def privacy_policy_call_def)

theorem policy_text_truncation_witness:
  "ai_calls (fst (analyze_privacy_policy long_policy_env example_policy_request)) =
      [privacy_policy_call (replicate 8000 97 @ py ''... [content truncated]'')]
   \<and> map_of (messages (privacy_policy_call (replicate 8000 97 @ py ''... [content truncated]'')) ! 1)
        (py ''content'') =
       Some (py ''Please analyze this privacy policy and identify the main red flags or concerning practices that a regular internet user should be aware of. \<newline>\<newline>Privacy Policy Text:\<newline>'' @
             (replicate 8000 97 @ py ''... [content truncated]'') @
             py ''\<newline>\<newline>Please provide a concise summary focusing on:\<newline>1. How the company shares or sells user data\<newline>2. What data they collect beyond what's necessary\<newline>3. How long they keep user data\<newline>4. Any concerning clauses about data usage\<newline>\<newline>Format your response as bullet points in simple, non-technical language. Keep it to 3-4 key points maximum. If the policy seems reasonable, say so.'')"
proof -
  have sent: "limit_text (extract_text long_policy_soup) =
      replicate 8000 97 @ py ''... [content truncated]''"
    by (simp add: limit_text_def extract_text_long_policy_soup)
  from policy_text_truncation [OF example_fetch(1) example_parse(1)]
  have calls: "ai_calls (fst (analyze_privacy_policy long_policy_env example_policy_request)) =
      [privacy_policy_call (limit_text (extract_text long_policy_soup))]"
    and all_msgs: "messages (privacy_policy_call (limit_text (extract_text long_policy_soup))) =
        [[(py ''role'', py ''system''),
          (py ''content'', py ''You are a privacy expert helping non-technical users understand privacy policies. Focus on identifying concerning practices in simple, clear language.'')],
         [(py ''role'', py ''user''),
          (py ''content'',
             py ''Please analyze this privacy policy and identify the main red flags or concerning practices that a regular internet user should be aware of. \<newline>\<newline>Privacy Policy Text:\<newline>'' @
             limit_text (extract_text long_policy_soup) @
             py ''\<newline>\<newline>Please provide a concise summary focusing on:\<newline>1. How the company shares or sells user data\<newline>2. What data they collect beyond what's necessary\<newline>3. How long they keep user data\<newline>4. Any concerning clauses about data usage\<newline>\<newline>Format your response as bullet points in simple, non-technical language. Keep it to 3-4 key points maximum. If the policy seems reasonable, say so.'')]]"
    by blast+
  from calls have "ai_calls (fst (analyze_privacy_policy long_policy_env example_policy_request)) =
      [privacy_policy_call (replicate 8000 97 @ py ''... [content truncated]'')]"
    unfolding sent .
  moreover from all_msgs
  have "map_of (messages (privacy_policy_call (replicate 8000 97 @ py ''... [content truncated]'')) ! 1)
        (py ''content'') =
       Some (py ''Please analyze this privacy policy and identify the main red flags or concerning practices that a regular internet user should be aware of. \<newline>\<newline>Privacy Policy Text:\<newline>'' @
             (replicate 8000 97 @ py ''... [content truncated]'') @
             py ''\<newline>\<newline>Please provide a concise summary focusing on:\<newline>1. How the company shares or sells user data\<newline>2. What data they collect beyond what's necessary\<newline>3. How long they keep user data\<newline>4. Any concerning clauses about data usage\<newline>\<newline>Format your response as bullet points in simple, non-technical language. Keep it to 3-4 key points maximum. If the policy seems reasonable, say so.'')"
    unfolding sent using dict_keys_distinct by simp
  ultimately show ?thesis
    by blast
qed

text \<open>
  C8: after a successful fetch (and parse) the text passed on to the AI prompt is the text
  extracted from the document with every script and style element emptied; so the
  contents of those elements do not reach it, and two documents that differ only inside
  script and style elements give the same extracted text.
\<close>

theorem script_style_not_extracted:
  assumes "fetch_policy ev (policy_url request) = Inr response"
    and "html_parser ev (content response) = Inr soup"
  shows "ai_calls (fst (analyze_privacy_policy ev request)) =
      [privacy_policy_call
         (limit_text (extract_text (outside_all [py ''script'', py ''style''] soup)))]
    \<and> (\<forall>other. outside_all [py ''script'', py ''style''] other =
           outside_all [py ''script'', py ''style''] soup \<longrightarrow>
         extract_text other = extract_text soup)"
  using ai_calls_analyze_privacy_policy [OF assms]
  by (metis extract_text_outside)

theorem script_style_not_extracted_witness:
  "ai_calls (fst (analyze_privacy_policy quota_env example_policy_request)) =
      [privacy_policy_call (py ''We sell your data.'')]
   \<and> extract_text
        [Tag (py ''p'') [NavigableString (py ''We sell your data.'')],
         Tag (py ''script'') [NavigableString (py ''steal(document.cookie)'')]] =
       extract_text example_soup"
proof -
  let ?other = "[Tag (py ''p'') [NavigableString (py ''We sell your data.'')],
         Tag (py ''script'') [NavigableString (py ''steal(document.cookie)'')]]"
  have same: "outside_all [py ''script'', py ''style''] ?other =
      outside_all [py ''script'', py ''style''] example_soup"
    by (simp only: other_soup_outside example_soup_outside)
  from script_style_not_extracted [OF example_fetch(2) example_parse(2)]
  have calls: "ai_calls (fst (analyze_privacy_policy quota_env example_policy_request)) =
      [privacy_policy_call
         (limit_text (extract_text (outside_all [py ''script'', py ''style''] example_soup)))]"
    and indep: "\<forall>other. outside_all [py ''script'', py ''style''] other =
           outside_all [py ''script'', py ''style''] example_soup \<longrightarrow>
         extract_text other = extract_text example_soup"
    by blast+
  from calls have "ai_calls (fst (analyze_privacy_policy quota_env example_policy_request)) =
      [privacy_policy_call (py ''We sell your data.'')]"
    by (simp only: example_soup_outside example_text_plain limit_text_short)
  moreover from indep same have "extract_text ?other = extract_text example_soup"
    by blast
  ultimately show ?thesis
    by blast
qed

subsection \<open>When the explanation is empty\<close>


lemma first_choice_content_Cons [simp]:
  "first_choice_content \<lparr>choices = c # cs\<rparr> = Inr c"
  by (simp add: first_choice_content_def)

lemma first_choice_content_Inr:
  "first_choice_content response = Inr c \<longleftrightarrow> (\<exists>cs. response = \<lparr>choices = c # cs\<rparr>)"
  by (cases response) (auto simp: first_choice_content_def split: list.splits)

lemma ExplanationResponse_init_Inr:
  "ExplanationResponse_init ev c succ err = Inr r \<longleftrightarrow>
     (\<exists>s. c = Some s \<and> r = \<lparr>explanation = s, success = succ, error = err\<rparr>)"
  by (auto simp: ExplanationResponse_init_def split: option.splits)













subsection \<open>The fixed-prompt endpoints do not read the request\<close>

text \<open>
  C10: on the two fixed-prompt endpoints the one AI call made is a constant of the program
  (model, messages, \<open>max_tokens\<close> and \<open>temperature\<close> are literals), the same for any two
  requests; the result is the same for any two requests, and for two environments it is
  the same as soon as the AI endpoint answers that call alike (and the response model
  reports a refused value with the same text).
\<close>

theorem fixed_prompt_request_independent:
  "fst (explain_insecure_submission ev r1) = [AICall insecure_submission_call]
   \<and> fst (explain_password_insecure_form ev r1) = [AICall password_insecure_form_call]
   \<and> explain_insecure_submission ev r1 = explain_insecure_submission ev r2
   \<and> explain_password_insecure_form ev r1 = explain_password_insecure_form ev r2
   \<and> (chat_completions_create ev insecure_submission_call =
          chat_completions_create ev' insecure_submission_call
        \<and> validation_error_text ev = validation_error_text ev' \<longrightarrow>
        explain_insecure_submission ev r1 = explain_insecure_submission ev' r2)
   \<and> (chat_completions_create ev password_insecure_form_call =
          chat_completions_create ev' password_insecure_form_call
        \<and> validation_error_text ev = validation_error_text ev' \<longrightarrow>
        explain_password_insecure_form ev r1 = explain_password_insecure_form ev' r2)
   \<and> model insecure_submission_call = py ''gemini-2.5-flash-preview-05-20''
   \<and> max_tokens insecure_submission_call = 10000
   \<and> temperature insecure_submission_call = 7 / 10
   \<and> model password_insecure_form_call = py ''gemini-2.5-flash-preview-05-20''
   \<and> max_tokens password_insecure_form_call = 10000
   \<and> temperature password_insecure_form_call = 7 / 10"
proof -
  have init: "ExplanationResponse_init ev = ExplanationResponse_init ev'"
    if "validation_error_text ev = validation_error_text ev'"
    using that by (intro ext) (simp add: ExplanationResponse_init_def split: option.splits)
  have "explain_insecure_submission ev r1 = explain_insecure_submission ev' r2"
    if "chat_completions_create ev insecure_submission_call =
          chat_completions_create ev' insecure_submission_call"
      and "validation_error_text ev = validation_error_text ev'"
    using that(1) init [OF that(2)]
    by (simp add: explain_insecure_submission_def explain_insecure_submission_try_def
        split: sum.splits)
  moreover have "explain_password_insecure_form ev r1 = explain_password_insecure_form ev' r2"
    if "chat_completions_create ev password_insecure_form_call =
          chat_completions_create ev' password_insecure_form_call"
      and "validation_error_text ev = validation_error_text ev'"
    using that(1) init [OF that(2)]
    by (simp add: explain_password_insecure_form_def explain_password_insecure_form_try_def
        split: sum.splits)
  moreover have "explain_insecure_submission ev r1 = explain_insecure_submission ev r2"
    and "explain_password_insecure_form ev r1 = explain_password_insecure_form ev r2"
    by (simp_all add: explain_insecure_submission_def explain_insecure_submission_try_def
        explain_password_insecure_form_def explain_password_insecure_form_try_def)
  moreover have "fst (explain_insecure_submission ev r1) = [AICall insecure_submission_call]"
    and "fst (explain_password_insecure_form ev r1) = [AICall password_insecure_form_call]"
    by (simp_all add: explain_insecure_submission_def explain_password_insecure_form_def)
  moreover have "model insecure_submission_call = py ''gemini-2.5-flash-preview-05-20''"
    and "max_tokens insecure_submission_call = 10000"
    and "temperature insecure_submission_call = 7 / 10"
    and "model password_insecure_form_call = py ''gemini-2.5-flash-preview-05-20''"
    and "max_tokens password_insecure_form_call = 10000"
    and "temperature password_insecure_form_call = 7 / 10"
    by (simp_all add: insecure_submission_call_def password_insecure_form_call_def)
  ultimately show ?thesis
    by blast
qed

theorem fixed_prompt_request_independent_witness:
  "explain_insecure_submission empty_reply_env ExplanationRequest =
     explain_insecure_submission
       (not_found_env\<lparr>chat_completions_create := (\<lambda>call. Inr \<lparr>choices = [Some []]\<rparr>)\<rparr>)
       ExplanationRequest
   \<and> explain_password_insecure_form empty_reply_env ExplanationRequest =
     explain_password_insecure_form
       (not_found_env\<lparr>chat_completions_create := (\<lambda>call. Inr \<lparr>choices = [Some []]\<rparr>)\<rparr>)
       ExplanationRequest"
  using fixed_prompt_request_independent
    [of empty_reply_env ExplanationRequest ExplanationRequest
      "not_found_env\<lparr>chat_completions_create := (\<lambda>call. Inr \<lparr>choices = [Some []]\<rparr>)\<rparr>"]
  by (simp add: empty_reply_env_def not_found_env_def quota_env_def)

end
